theory Spec2Isabelle
  imports Complex_Main "HOL-Library.Log_Nat"
begin

section \<open>The trajectory trail of RobotTrajectoryWidget.py\<close>

text \<open>
  The development embeds \<^verbatim>\<open>src/dashboard/widgets/RobotTrajectoryWidget.py\<close>: the class
  \<^verbatim>\<open>TrajectoryManager\<close> (a bounded deque of trail samples with interpolation and a
  deferred break flag), the function \<^verbatim>\<open>draw_smooth_trail\<close> (segmentation, smoothing
  and the two drawing passes) and the setter and display methods of
  \<^verbatim>\<open>RobotTrajectoryWidget\<close>.

  Conventions of the embedding.
  \<^item> Coordinates are Python integers, modelled as \<open>int\<close>.
  \<^item> The manager computes in Python floats (IEEE binary64). The model follows it
    operation by operation: \<open>fl64\<close> rounds a rational number to the nearest float, ties
    to even, and every float operation of the source is the exact operation followed by
    \<open>fl64\<close>, with the exceptions that Python raises.
  \<^item> The renderer smooths in a \<^verbatim>\<open>float32\<close> array of \<^verbatim>\<open>numpy\<close> and compares progress
    values in binary64. The model of the renderer computes the same expressions in exact
    rational arithmetic. It agrees with the source for pixel coordinates (absolute value
    below \<open>2^22\<close>) and snapshots of fewer than \<open>2^49\<close> entries: sums of at most three
    such coordinates are exact in \<^verbatim>\<open>float32\<close>, a quotient by \<open>2\<close> or \<open>3\<close> is rounded by
    less than its distance to the next integer, and a quotient of two small integers is
    never rounded across the constants \<open>0.3\<close> and \<open>0.7\<close>. Outside this range the
    smoothing of the source rounds to \<^verbatim>\<open>float32\<close> and raises \<^verbatim>\<open>OverflowError\<close> on an
    infinite mean, which the model of the renderer does not follow: the properties of
    the smoothed values and of the exceptions of a display tick are stated for this
    range (\<open>pixel_segment\<close>, \<open>pixel_snapshot\<close>).
  \<^item> \<^verbatim>\<open>time.time()\<close> is an input: every operation that reads the clock takes the
    reading as its argument \<open>now\<close>.
  \<^item> The lock \<^verbatim>\<open>_lock\<close> serialises buffer accesses of concurrent threads; the model
    is sequential, one call at a time.
  \<^item> An exception is a value of the type \<open>error\<close>. A method that can raise after it
    changed the state returns the state it leaves and the exception, if any.
\<close>

subsection \<open>Python values and errors\<close>

text \<open>
  The exceptions of the model: five built-in ones and \<^verbatim>\<open>cv2.error\<close> (\<open>CvError\<close>), which
  is not a subclass of any of the five.
\<close>

datatype error =
  IndexError | ValueError | TypeError | OverflowError | ZeroDivisionError | CvError

type_synonym timestamp = rat

type_synonym point = "int \<times> int"

text \<open>\<^verbatim>\<open>int(v)\<close> on a finite float: truncation toward zero.\<close>

definition py_int :: "rat \<Rightarrow> int" where
  "py_int q = (if 0 \<le> q then \<lfloor>q\<rfloor> else \<lceil>q\<rceil>)"

subsection \<open>Python floats\<close>

text \<open>
  A finite float is a rational number. \<open>floor_log2 q\<close> is the exponent \<open>e\<close> with
  \<open>2^e \<le> q < 2^(e + 1)\<close> of a positive \<open>q\<close>; \<open>fl64\<close> rounds to 53 significant bits
  (to a multiple of \<open>2^-1074\<close> below \<open>2^-1022\<close>), ties to even; a result beyond
  \<open>max_float\<close> is an overflow.
\<close>

definition round_half_even :: "rat \<Rightarrow> int" where
  "round_half_even x =
     (let f = \<lfloor>x\<rfloor>; d = x - of_int f
      in if d < 1 / 2 then f else if 1 / 2 < d then f + 1 else if even f then f else f + 1)"

definition floor_log2 :: "rat \<Rightarrow> int" where
  "floor_log2 q =
     (let (a, b) = quotient_of q; e0 = bitlen a - bitlen b
      in if 2 powi e0 \<le> q then e0 else e0 - 1)"

definition fl64 :: "rat \<Rightarrow> rat" where
  "fl64 q =
     (if q = 0 then 0
      else let e = max (floor_log2 \<bar>q\<bar>) (- 1022); u = 2 powi (e - 52)
           in of_int (round_half_even (q / u)) * u)"

definition max_float :: rat where
  "max_float = 2 ^ 1024 - 2 ^ 971"

text \<open>
  The conversion of an integer operand of a float operation
  (\<^verbatim>\<open>OverflowError: int too large to convert to float\<close>), and the true division
  \<^verbatim>\<open>i / m\<close> of two integers.
\<close>

definition float_of_int :: "int \<Rightarrow> error + rat" where
  "float_of_int z =
     (let r = fl64 (of_int z) in if max_float < \<bar>r\<bar> then Inl OverflowError else Inr r)"

definition true_div :: "int \<Rightarrow> int \<Rightarrow> error + rat" where
  "true_div i m =
     (if m = 0 then Inl ZeroDivisionError
      else let r = fl64 (of_int i / of_int m)
           in if max_float < \<bar>r\<bar> then Inl OverflowError else Inr r)"

subsection \<open>The trail buffer: \<^verbatim>\<open>collections.deque(maxlen=n)\<close>\<close>

text \<open>
  An entry of the buffer is the tuple \<^verbatim>\<open>(x, y, timestamp, is_break_start)\<close>. The
  renderer also accepts tuples with fewer than four components, of which it reads the
  first two; \<open>Bare\<close> stands for these.
\<close>

datatype point_data = Sample int int timestamp bool | Bare int int

record 'a deque =
  maxlen :: nat
  items :: "'a list"

definition deque_new :: "nat \<Rightarrow> 'a deque" where
  "deque_new n = \<lparr>maxlen = n, items = []\<rparr>"

text \<open>
  \<^verbatim>\<open>append\<close> puts the element at the right end and, when the deque has then more than
  \<^verbatim>\<open>maxlen\<close> elements, removes the leftmost one.
\<close>

definition deque_append :: "'a deque \<Rightarrow> 'a \<Rightarrow> 'a deque" where
  "deque_append d x =
     (let ys = items d @ [x]
      in d\<lparr>items := (if maxlen d < length ys then tl ys else ys)\<rparr>)"

definition deque_clear :: "'a deque \<Rightarrow> 'a deque" where
  "deque_clear d = d\<lparr>items := []\<rparr>"

subsection \<open>\<^verbatim>\<open>TrajectoryManager\<close>\<close>

record manager =
  trail_length :: int
  trajectory_points :: "point_data deque"
  current_position :: "point option"
  last_position :: "point option"
  trail_thickness :: int
  trail_fade :: bool
  show_current_point :: bool
  interpolate_motion :: bool
  trail_color :: "int \<times> int \<times> int"
  current_point_color :: "int \<times> int \<times> int"
  start_time :: rat
  update_count :: nat
  is_running :: bool
  trajectory_break_pending :: bool

text \<open>
  \<^verbatim>\<open>__init__(self, trail_length=100)\<close>. \<^verbatim>\<open>deque(maxlen=n)\<close> raises \<^verbatim>\<open>ValueError\<close>
  for a negative \<open>n\<close>.
\<close>

definition default_trail_length :: int where
  "default_trail_length = 100"

definition TrajectoryManager_init :: "int \<Rightarrow> timestamp \<Rightarrow> error + manager" where
  "TrajectoryManager_init n now =
     (if n < 0 then Inl ValueError
      else Inr \<lparr>trail_length = n,
                trajectory_points = deque_new (nat n),
                current_position = None,
                last_position = None,
                trail_thickness = 2,
                trail_fade = False,
                show_current_point = True,
                interpolate_motion = True,
                trail_color = (156, 39, 176),
                current_point_color = (0, 0, 128),
                start_time = now * 1000,
                update_count = 0,
                is_running = True,
                trajectory_break_pending = False\<rparr>)"

text \<open>
  \<^verbatim>\<open>distance = np.sqrt((end_x - start_x) ** 2 + (end_y - start_y) ** 2)\<close>. The argument
  is a Python integer. \<^verbatim>\<open>np.sqrt\<close> takes it as a 64-bit integer when it is below
  \<open>2^64\<close> and raises \<^verbatim>\<open>TypeError\<close> otherwise (an integer that fits no \<^verbatim>\<open>numpy\<close>
  integer type becomes an object, which has no square root). The source only compares
  the result with 5; the binary64 square root exceeds 5 exactly when the real one does.
  \<open>distance\<close> is the Euclidean distance of two positions as a real number; the
  properties are stated with it.
\<close>

definition squared_distance :: "point \<Rightarrow> point \<Rightarrow> int" where
  "squared_distance start_pos end_pos =
     (fst end_pos - fst start_pos)\<^sup>2 + (snd end_pos - snd start_pos)\<^sup>2"

definition np_sqrt :: "int \<Rightarrow> error + real" where
  "np_sqrt v = (if 2 ^ 64 \<le> v then Inl TypeError else Inr (sqrt (real_of_int v)))"

definition distance :: "point \<Rightarrow> point \<Rightarrow> real" where
  "distance start_pos end_pos =
     sqrt (real_of_int ((fst end_pos - fst start_pos)\<^sup>2 + (snd end_pos - snd start_pos)\<^sup>2))"

text \<open>
  \<^verbatim>\<open>int(start + t * (end - start))\<close> for a float \<open>t\<close>: the difference is converted and
  multiplied, the start is converted and added, and \<^verbatim>\<open>int\<close> truncates; \<^verbatim>\<open>int\<close> of an
  infinite float raises \<^verbatim>\<open>OverflowError\<close>.
\<close>

definition interp :: "int \<Rightarrow> int \<Rightarrow> rat \<Rightarrow> error + int" where
  "interp start_c end_c t =
     (case float_of_int (end_c - start_c) of
        Inl e \<Rightarrow> Inl e
      | Inr fd \<Rightarrow>
          (let prod = fl64 (t * fd)
           in case float_of_int start_c of
                Inl e \<Rightarrow> Inl e
              | Inr fs \<Rightarrow>
                  (let s = fl64 (fs + prod)
                   in if max_float < \<bar>prod\<bar> \<or> max_float < \<bar>s\<bar> then Inl OverflowError
                      else Inr (py_int s))))"

text \<open>
  The body of the loop \<^verbatim>\<open>for i in range(1, num_interpolated + 1)\<close> of
  \<^verbatim>\<open>add_interpolated_points\<close>: \<^verbatim>\<open>t = i / (num_interpolated + 1)\<close>, the two coordinates,
  and the sample to append.
\<close>

definition interpolated_sample ::
  "point \<Rightarrow> point \<Rightarrow> timestamp \<Rightarrow> int \<Rightarrow> int \<Rightarrow> error + point_data" where
  "interpolated_sample start_pos end_pos now num_interpolated i =
     (case true_div i (num_interpolated + 1) of
        Inl e \<Rightarrow> Inl e
      | Inr t \<Rightarrow>
          (case interp (fst start_pos) (fst end_pos) t of
             Inl e \<Rightarrow> Inl e
           | Inr interp_x \<Rightarrow>
               (case interp (snd start_pos) (snd end_pos) t of
                  Inl e \<Rightarrow> Inl e
                | Inr interp_y \<Rightarrow> Inr (Sample interp_x interp_y now False))))"

text \<open>The loop: it ends at the first index whose body raises.\<close>

fun interpolation_loop ::
  "point_data deque \<Rightarrow> point \<Rightarrow> point \<Rightarrow> timestamp \<Rightarrow> int \<Rightarrow> int list \<Rightarrow>
   point_data deque \<times> error option" where
  "interpolation_loop d start_pos end_pos now num_interpolated [] = (d, None)"
| "interpolation_loop d start_pos end_pos now num_interpolated (i # is) =
     (case interpolated_sample start_pos end_pos now num_interpolated i of
        Inl e \<Rightarrow> (d, Some e)
      | Inr smp \<Rightarrow>
          interpolation_loop (deque_append d smp) start_pos end_pos now num_interpolated is)"

definition add_interpolated_points ::
  "manager \<Rightarrow> point \<Rightarrow> point \<Rightarrow> timestamp \<Rightarrow> int \<Rightarrow> manager \<times> error option" where
  "add_interpolated_points m start_pos end_pos now num_interpolated =
     (case np_sqrt (squared_distance start_pos end_pos) of
        Inl e \<Rightarrow> (m, Some e)
      | Inr found \<Rightarrow>
          (let (d1, raised) =
                 (if found > 5
                  then interpolation_loop (trajectory_points m) start_pos end_pos now
                         num_interpolated [1..num_interpolated]
                  else (trajectory_points m, None))
           in case raised of
                Some e \<Rightarrow> (m\<lparr>trajectory_points := d1\<rparr>, Some e)
              | None \<Rightarrow>
                  (m\<lparr>trajectory_points :=
                       deque_append d1 (Sample (fst end_pos) (snd end_pos) now False)\<rparr>,
                   None)))"

definition default_num_interpolated :: int where
  "default_num_interpolated = 3"

definition update_position :: "manager \<Rightarrow> point \<Rightarrow> timestamp \<Rightarrow> manager \<times> error option" where
  "update_position m position now =
     (let m1 = (if trajectory_break_pending m
                then m\<lparr>last_position := None, trajectory_break_pending := False\<rparr>
                else m\<lparr>last_position := current_position m\<rparr>);
          m2 = m1\<lparr>current_position := Some position\<rparr>
      in if last_position m2 \<noteq> None \<and> interpolate_motion m2
         then add_interpolated_points m2 (the (last_position m2)) position now
                default_num_interpolated
         else (m2\<lparr>trajectory_points :=
                    deque_append (trajectory_points m2)
                      (Sample (fst position) (snd position) now (last_position m2 = None))\<rparr>,
               None))"

definition break_trajectory :: "manager \<Rightarrow> manager" where
  "break_trajectory m = m\<lparr>trajectory_break_pending := True\<rparr>"

definition clear_trail :: "manager \<Rightarrow> manager" where
  "clear_trail m =
     m\<lparr>trajectory_points := deque_clear (trajectory_points m),
       current_position := None,
       last_position := None\<rparr>"

definition get_trajectory_copy :: "manager \<Rightarrow> point_data list" where
  "get_trajectory_copy m = items (trajectory_points m)"

subsection \<open>\<^verbatim>\<open>draw_smooth_trail\<close>\<close>

text \<open>
  An image is a \<^verbatim>\<open>numpy\<close> array; the renderer reads its shape and changes it only
  through \<^verbatim>\<open>cv2.line\<close>. The model keeps the shape and the list of the lines drawn on
  the image, in the order of the calls. The three components of a colour of the
  gradient pass are products of a fade factor with constants, truncated; the model
  keeps the branch that computed the colour and the fade factor, and leaves the
  three truncated products out.
\<close>

datatype colour = DarkBand rat | MidBand rat | BrightBand rat | BGR int int int

record stroke =
  p1 :: point
  p2 :: point
  color :: colour
  thickness :: int

record image =
  shape1 :: int
  shape0 :: int
  strokes :: "stroke list"

text \<open>
  \<^verbatim>\<open>cv2.line\<close> belongs to OpenCV, not to the repository: the renderer takes the
  primitive that draws one line as a parameter, a function that returns the changed
  image or raises. \<open>cv2_line\<close> is the primitive that draws every line it is given.
\<close>

type_synonym line_primitive = "image \<Rightarrow> stroke \<Rightarrow> error + image"


text \<open>
  The first loop: one step per entry of the snapshot, on the pair of the segments
  closed so far and the current segment.
\<close>

fun segment_step :: "point list list \<times> point list \<Rightarrow> point_data \<Rightarrow> point list list \<times> point list" where
  "segment_step (segments, current_segment) (Sample x y ts is_break) =
     (if is_break \<and> current_segment \<noteq> []
      then ((if length current_segment > 1 then segments @ [current_segment] else segments),
            [(x, y)])
      else (segments, current_segment @ [(x, y)]))"
| "segment_step (segments, current_segment) (Bare x y) =
     (segments, current_segment @ [(x, y)])"

definition split_segments :: "point_data list \<Rightarrow> point list list" where
  "split_segments pts =
     (let (segments, current_segment) = foldl segment_step ([], []) pts
      in if length current_segment > 1 then segments @ [current_segment] else segments)"

text \<open>
  \<^verbatim>\<open>np.mean\<close> of a slice, and the smoothing loop with \<^verbatim>\<open>kernel_size = 3\<close>. The slice
  \<^verbatim>\<open>a[start:i + 1]\<close> is never empty.
\<close>

definition mean :: "int list \<Rightarrow> rat" where
  "mean xs = of_int (sum_list xs) / of_nat (length xs)"

definition kernel_size :: int where
  "kernel_size = 3"

definition smoothed_points :: "point list \<Rightarrow> point list" where
  "smoothed_points segment =
     map (\<lambda>i. let start = nat (max 0 (int i - kernel_size + 1));
                   window = take (i + 1 - start) (drop start segment)
               in (py_int (mean (map fst window)), py_int (mean (map snd window))))
       [0..<length segment]"

text \<open>
  The gradient pass: \<^verbatim>\<open>progress = (i + 1) / total\<close>, the colour by the chain
  \<^verbatim>\<open>if progress < 0.3 ... elif progress < 0.7 ... else\<close>, the thickness
  \<^verbatim>\<open>max(1, int(2 + (progress * 4)))\<close>, and the guard on both end points.
\<close>

definition progress_of :: "nat \<Rightarrow> nat \<Rightarrow> rat" where
  "progress_of i total_points = of_nat (i + 1) / of_nat total_points"

definition trail_colour :: "rat \<Rightarrow> colour" where
  "trail_colour progress =
     (if progress < 3 / 10 then DarkBand (progress / (3 / 10))
      else if progress < 7 / 10 then MidBand ((progress - 3 / 10) / (4 / 10))
      else BrightBand ((progress - 7 / 10) / (3 / 10)))"

definition line_thickness :: "rat \<Rightarrow> int" where
  "line_thickness progress = max 1 (py_int (2 + progress * 4))"

definition in_image :: "int \<Rightarrow> int \<Rightarrow> point \<Rightarrow> bool" where
  "in_image image_width image_height p \<longleftrightarrow>
     0 \<le> fst p \<and> fst p < image_width \<and> 0 \<le> snd p \<and> snd p < image_height"

definition gradient_strokes :: "int \<Rightarrow> int \<Rightarrow> point list \<Rightarrow> stroke list" where
  "gradient_strokes image_width image_height smoothed =
     (let total_points = length smoothed
      in concat (map (\<lambda>i.
           let progress = progress_of i total_points;
               a = smoothed ! i;
               b = smoothed ! (i + 1)
           in if in_image image_width image_height a \<and> in_image image_width image_height b
              then [\<lparr>p1 = a, p2 = b, color = trail_colour progress,
                     thickness = line_thickness progress\<rparr>]
              else [])
         [0..<total_points - 1]))"

text \<open>
  The second pass, for more than five smoothed points: the last five points
  (\<^verbatim>\<open>smoothed_points[-5:]\<close>) joined again by two strokes each.
\<close>

definition highlight_strokes :: "int \<Rightarrow> int \<Rightarrow> point list \<Rightarrow> stroke list" where
  "highlight_strokes image_width image_height smoothed =
     (if length smoothed > 5
      then let recent_points = drop (length smoothed - 5) smoothed
           in concat (map (\<lambda>i.
                let a = recent_points ! i;
                    b = recent_points ! (i + 1)
                in if in_image image_width image_height a \<and> in_image image_width image_height b
                   then [\<lparr>p1 = a, p2 = b, color = BGR 255 200 255, thickness = 6\<rparr>,
                         \<lparr>p1 = a, p2 = b, color = BGR 255 100 255, thickness = 2\<rparr>]
                   else [])
              [0..<length recent_points - 1])
      else [])"

definition segment_strokes :: "int \<Rightarrow> int \<Rightarrow> point list \<Rightarrow> stroke list" where
  "segment_strokes image_width image_height segment =
     (if length segment < 2 then []
      else let smoothed = smoothed_points segment
           in gradient_strokes image_width image_height smoothed @
              highlight_strokes image_width image_height smoothed)"

text \<open>
  The calls of \<^verbatim>\<open>cv2.line\<close> that \<^verbatim>\<open>draw_smooth_trail\<close> makes on an image of the given
  width and height, in their order, when no call raises.
\<close>

definition trail_strokes :: "int \<Rightarrow> int \<Rightarrow> point_data list \<Rightarrow> stroke list" where
  "trail_strokes image_width image_height pts =
     (if length pts < 2 then []
      else concat (map (segment_strokes image_width image_height) (split_segments pts)))"

text \<open>
  The calls are made one after the other on the image; the first that raises ends the
  function with its exception, and the lines drawn before stay on the image.
\<close>

fun draw_lines :: "line_primitive \<Rightarrow> image \<Rightarrow> stroke list \<Rightarrow> image \<times> error option" where
  "draw_lines line img [] = (img, None)"
| "draw_lines line img (s # ss) =
     (case line img s of
        Inl e \<Rightarrow> (img, Some e)
      | Inr img' \<Rightarrow> draw_lines line img' ss)"

definition draw_smooth_trail :: "line_primitive \<Rightarrow> image \<Rightarrow> point_data list \<Rightarrow> image \<times> error option" where
  "draw_smooth_trail line img pts =
     draw_lines line img (trail_strokes (shape1 img) (shape0 img) pts)"

subsection \<open>\<^verbatim>\<open>RobotTrajectoryWidget\<close>\<close>

text \<open>
  The state of the widget that its setters and the display tick read or write.
  \<open>label_pixmap\<close> is the frame that \<^verbatim>\<open>image_label\<close> shows; \<open>estimated_metric\<close> and
  \<open>time_left_metric\<close> are the values whose text the two metric labels show. A method
  returns the state it leaves and the exception it raises, if any.
\<close>

record widget =
  image_width :: int
  image_height :: int
  estimated_time_value :: rat
  time_left_value :: rat
  base_frame :: "image option"
  current_frame :: "image option"
  trajectory_manager :: manager
  drawing_enabled :: bool
  label_pixmap :: "image option"
  estimated_metric :: rat
  time_left_metric :: rat

text \<open>
  The values of a message's coordinates: integers, booleans, floats (a finite float is
  a rational number) and \<^verbatim>\<open>None\<close>, with \<^verbatim>\<open>int(v)\<close> on each.
\<close>

datatype pyfloat = Finite rat | NaN | Infinity

datatype pyval = PyInt int | PyBool bool | PyFloat pyfloat | PyNone

fun int_of_pyval :: "pyval \<Rightarrow> error + int" where
  "int_of_pyval (PyInt n) = Inr n"
| "int_of_pyval (PyBool b) = Inr (if b then 1 else 0)"
| "int_of_pyval (PyFloat (Finite q)) = Inr (py_int q)"
| "int_of_pyval (PyFloat NaN) = Inl ValueError"
| "int_of_pyval (PyFloat Infinity) = Inl OverflowError"
| "int_of_pyval PyNone = Inl TypeError"

text \<open>\<^verbatim>\<open>message.get(key, 0)\<close>\<close>

definition dict_get :: "(string \<rightharpoonup> pyval) \<Rightarrow> string \<Rightarrow> pyval" where
  "dict_get message key = (case message key of None \<Rightarrow> PyInt 0 | Some v \<Rightarrow> v)"

definition update_trajectory_point ::
  "widget \<Rightarrow> (string \<rightharpoonup> pyval) option \<Rightarrow> timestamp \<Rightarrow> widget \<times> error option" where
  "update_trajectory_point w message now =
     (case message of
        None \<Rightarrow> (w, None)
      | Some d \<Rightarrow>
          (let x = dict_get d ''x''; y = dict_get d ''y''
           in case int_of_pyval x of
                Inl e \<Rightarrow> (w, Some e)
              | Inr xi \<Rightarrow>
                  (case int_of_pyval y of
                     Inl e \<Rightarrow> (w, Some e)
                   | Inr yi \<Rightarrow>
                       (let (tm, raised) = update_position (trajectory_manager w) (xi, yi) now
                        in (w\<lparr>trajectory_manager := tm\<rparr>, raised)))))"

definition widget_break_trajectory :: "widget \<Rightarrow> widget" where
  "widget_break_trajectory w =
     w\<lparr>trajectory_manager := break_trajectory (trajectory_manager w)\<rparr>"

definition enable_drawing :: "widget \<Rightarrow> widget" where
  "enable_drawing w = w\<lparr>drawing_enabled := True\<rparr>"

definition disable_drawing :: "widget \<Rightarrow> widget" where
  "disable_drawing w =
     w\<lparr>drawing_enabled := False,
       trajectory_manager := clear_trail (trajectory_manager w)\<rparr>"

definition update_label_from_frame :: "widget \<Rightarrow> widget" where
  "update_label_from_frame w =
     (case current_frame w of
        None \<Rightarrow> w
      | Some f \<Rightarrow> w\<lparr>label_pixmap := Some f\<rparr>)"

text \<open>
  \<^verbatim>\<open>update_display\<close>: the call of \<^verbatim>\<open>draw_smooth_trail\<close> stands in
  \<^verbatim>\<open>try: ... except (IndexError, ValueError): pass\<close>.
\<close>

definition update_display :: "line_primitive \<Rightarrow> widget \<Rightarrow> widget \<times> error option" where
  "update_display line w =
     (case base_frame w of
        None \<Rightarrow> (w, None)
      | Some bf \<Rightarrow>
          (let trajectory_points_copy = get_trajectory_copy (trajectory_manager w);
               (frame, raised) =
                 (if drawing_enabled w \<and> trajectory_points_copy \<noteq> []
                  then draw_smooth_trail line bf trajectory_points_copy
                  else (bf, None));
               w1 = w\<lparr>current_frame := Some frame\<rparr>
           in if raised \<noteq> None \<and> raised \<noteq> Some IndexError \<and> raised \<noteq> Some ValueError
              then (w1, raised)
              else (let w2 = update_label_from_frame w1;
                        tm = trajectory_manager w2;
                        w3 = w2\<lparr>trajectory_manager := tm\<lparr>update_count := update_count tm + 1\<rparr>\<rparr>
                    in (w3\<lparr>estimated_metric := estimated_time_value w3,
                           time_left_metric := time_left_value w3\<rparr>, None))))"

subsection \<open>Sequences of calls\<close>

text \<open>
  Appending several elements in turn, and the calls that change the manager between two
  display ticks.
\<close>

definition deque_extend :: "'a deque \<Rightarrow> 'a list \<Rightarrow> 'a deque" where
  "deque_extend d xs = foldl deque_append d xs"

datatype call = Update point timestamp | Break

text \<open>A caller that goes on after an exception of \<^verbatim>\<open>update_position\<close>.\<close>

fun apply_call :: "manager \<Rightarrow> call \<Rightarrow> manager" where
  "apply_call m (Update p now) = fst (update_position m p now)"
| "apply_call m Break = break_trajectory m"

definition run_calls :: "manager \<Rightarrow> call list \<Rightarrow> manager" where
  "run_calls m cs = foldl apply_call m cs"

text \<open>
  The samples that the loop of \<^verbatim>\<open>add_interpolated_points\<close> hands to
  \<^verbatim>\<open>trajectory_points.append\<close> for a list of indices, with the exception that ended
  it; the samples that one call of \<^verbatim>\<open>add_interpolated_points\<close> hands over, with its
  exception; the samples of one call of \<^verbatim>\<open>update_position\<close>, in the order of the calls
  of \<^verbatim>\<open>append\<close>; and the samples of a sequence of calls. The lemmas
  \<open>add_interpolated_points_samples\<close> and \<open>trajectory_points_update_position\<close> below
  relate them to the embedded methods.
\<close>

fun loop_samples ::
  "point \<Rightarrow> point \<Rightarrow> timestamp \<Rightarrow> int \<Rightarrow> int list \<Rightarrow> point_data list \<times> error option" where
  "loop_samples start_pos end_pos now n [] = ([], None)"
| "loop_samples start_pos end_pos now n (i # is) =
     (case interpolated_sample start_pos end_pos now n i of
        Inl e \<Rightarrow> ([], Some e)
      | Inr smp \<Rightarrow>
          (let (xs, raised) = loop_samples start_pos end_pos now n is in (smp # xs, raised)))"

definition interpolation_samples ::
  "point \<Rightarrow> point \<Rightarrow> timestamp \<Rightarrow> int \<Rightarrow> point_data list \<times> error option" where
  "interpolation_samples start_pos end_pos now n =
     (if 2 ^ 64 \<le> squared_distance start_pos end_pos then ([], Some TypeError)
      else let (xs, raised) =
                 (if distance start_pos end_pos > 5
                  then loop_samples start_pos end_pos now n [1..n] else ([], None))
           in case raised of
                Some e \<Rightarrow> (xs, Some e)
              | None \<Rightarrow> (xs @ [Sample (fst end_pos) (snd end_pos) now False], None))"

definition appended_samples :: "manager \<Rightarrow> point \<Rightarrow> timestamp \<Rightarrow> point_data list" where
  "appended_samples m position now =
     (case (if trajectory_break_pending m then None else current_position m) of
        None \<Rightarrow> [Sample (fst position) (snd position) now True]
      | Some lp \<Rightarrow>
          (if interpolate_motion m
           then fst (interpolation_samples lp position now default_num_interpolated)
           else [Sample (fst position) (snd position) now False]))"

fun appended_log :: "manager \<Rightarrow> call list \<Rightarrow> point_data list" where
  "appended_log m [] = []"
| "appended_log m (Update p now # cs) =
     appended_samples m p now @ appended_log (fst (update_position m p now)) cs"
| "appended_log m (Break # cs) = appended_log (break_trajectory m) cs"

text \<open>A manager as the constructor leaves it, with the clock at \<open>0\<close>.\<close>

definition fresh_manager :: "int \<Rightarrow> manager" where
  "fresh_manager n =
     \<lparr>trail_length = n, trajectory_points = deque_new (nat n), current_position = None,
      last_position = None, trail_thickness = 2, trail_fade = False,
      show_current_point = True, interpolate_motion = True, trail_color = (156, 39, 176),
      current_point_color = (0, 0, 128), start_time = 0, update_count = 0,
      is_running = True, trajectory_break_pending = False\<rparr>"

text \<open>
  The spec's evenly spaced points: the \<open>k\<close>-th of the \<open>n\<close> points that divide the
  stretch from \<open>a\<close> to \<open>b\<close> into \<open>n + 1\<close> equal parts.
\<close>

definition evenly_spaced :: "int \<Rightarrow> int \<Rightarrow> int \<Rightarrow> int \<Rightarrow> rat" where
  "evenly_spaced a b k n = of_int a + of_int k * (of_int b - of_int a) / of_int (n + 1)"

text \<open>A manager that has received one position.\<close>

definition moving_manager :: manager where
  "moving_manager = fst (update_position (fresh_manager 100) (-3, 0) 1)"

text \<open>A widget with a black frame of 100 by 100 pixels around a given manager.\<close>

definition sample_widget :: "manager \<Rightarrow> widget" where
  "sample_widget m =
     \<lparr>image_width = 100, image_height = 100, estimated_time_value = 0, time_left_value = 0,
      base_frame = Some \<lparr>shape1 = 100, shape0 = 100, strokes = []\<rparr>,
      current_frame = Some \<lparr>shape1 = 100, shape0 = 100, strokes = []\<rparr>,
      trajectory_manager = m, drawing_enabled = True,
      label_pixmap = Some \<lparr>shape1 = 100, shape0 = 100, strokes = []\<rparr>,
      estimated_metric = 0, time_left_metric = 0\<rparr>"

text \<open>A primitive that raises on every call.\<close>

definition refusing_line :: line_primitive where
  "refusing_line img s = Inl CvError"










text \<open>
  Pixel coordinates: the range in which the arithmetic of the renderer's model is the
  arithmetic of the source.
\<close>

definition pixel :: "int \<Rightarrow> bool" where
  "pixel c \<longleftrightarrow> \<bar>c\<bar> < 2 ^ 22"

definition pixel_point :: "point \<Rightarrow> bool" where
  "pixel_point p \<longleftrightarrow> pixel (fst p) \<and> pixel (snd p)"






section \<open>Properties\<close>

subsection \<open>The bounded deque\<close>

lemma maxlen_deque_append [simp]: "maxlen (deque_append d x) = maxlen d"
  by (simp add: deque_append_def Let_def)

lemma items_deque_append:
  "length (items d) \<le> maxlen d \<Longrightarrow>
   items (deque_append d x) = drop (Suc (length (items d)) - maxlen d) (items d @ [x])"
proof (cases "Suc (length (items d)) \<le> maxlen d")
  case True
  then show ?thesis by (simp add: deque_append_def Let_def)
next
  case False
  assume "length (items d) \<le> maxlen d"
  with False have eq: "maxlen d = length (items d)" by simp
  show ?thesis by (cases "items d") (simp_all add: deque_append_def Let_def eq)
qed

lemma length_items_deque_append:
  "length (items d) \<le> maxlen d \<Longrightarrow> length (items (deque_append d x)) \<le> maxlen d"
  by (auto simp: deque_append_def Let_def)

lemma maxlen_deque_extend [simp]: "maxlen (deque_extend d xs) = maxlen d"
  unfolding deque_extend_def by (induction xs arbitrary: d) simp_all

lemma length_items_deque_extend:
  "length (items d) \<le> maxlen d \<Longrightarrow> length (items (deque_extend d xs)) \<le> maxlen d"
proof (induction xs arbitrary: d)
  case Nil
  then show ?case by (simp add: deque_extend_def)
next
  case (Cons x xs)
  have "length (items (deque_append d x)) \<le> maxlen (deque_append d x)"
    using Cons.prems by (simp add: length_items_deque_append)
  from Cons.IH [OF this] show ?case by (simp add: deque_extend_def)
qed

lemma items_deque_extend:
  "length (items d) \<le> maxlen d \<Longrightarrow>
   items (deque_extend d xs) = drop (length (items d) + length xs - maxlen d) (items d @ xs)"
proof (induction xs arbitrary: d)
  case Nil
  then show ?case by (simp add: deque_extend_def)
next
  case (Cons x xs)
  let ?d = "deque_append d x"
  have inv: "length (items ?d) \<le> maxlen ?d"
    using Cons.prems by (simp add: length_items_deque_append)
  have "items (deque_extend d (x # xs)) = items (deque_extend ?d xs)"
    by (simp add: deque_extend_def)
  also have "\<dots> = drop (length (items ?d) + length xs - maxlen d) (items ?d @ xs)"
    using Cons.IH [OF inv] by simp
  also have "\<dots> = drop (length (items d) + length (x # xs) - maxlen d) (items d @ x # xs)"
  proof (cases "Suc (length (items d)) \<le> maxlen d")
    case True
    then show ?thesis using Cons.prems by (simp add: items_deque_append)
  next
    case False
    with Cons.prems have eq: "length (items d) = maxlen d" by simp
    have "items ?d = drop 1 (items d @ [x])"
      using Cons.prems eq by (simp add: items_deque_append)
    then show ?thesis using eq by (cases "items d") auto
  qed
  finally show ?case .
qed

subsection \<open>Floats\<close>

lemma round_half_even_of_int [simp]: "round_half_even (of_int z) = z"
  by (simp add: round_half_even_def)

lemma floor_log2_le:
  assumes "0 < q"
  shows "2 powi (floor_log2 q) \<le> q"
proof -
  obtain a b where ab: "quotient_of q = (a, b)" by (cases "quotient_of q")
  then have b: "0 < b" and q: "q = of_int a / of_int b"
    by (auto dest: quotient_of_denom_pos quotient_of_div)
  from assms q b have a: "0 < a" by (simp add: zero_less_divide_iff)
  let ?e0 = "bitlen a - bitlen b"
  show ?thesis
  proof (cases "2 powi ?e0 \<le> q")
    case True
    then show ?thesis by (simp add: floor_log2_def ab)
  next
    case False
    have la: "1 \<le> bitlen a" and lb: "1 \<le> bitlen b"
      using a b bitlen_eq_zero_iff [of a] bitlen_eq_zero_iff [of b] bitlen_nonneg [of a]
        bitlen_nonneg [of b] by linarith+
    have "(2::int) ^ nat (bitlen a - 1) \<le> a" using bitlen_bounds [OF a] by simp
    then have 1: "(2::rat) ^ nat (bitlen a - 1) \<le> of_int a"
      by (metis of_int_le_iff of_int_numeral of_int_power)
    have "b < (2::int) ^ nat (bitlen b)" using bitlen_bounds [OF b] by simp
    then have 2: "of_int b \<le> (2::rat) ^ nat (bitlen b)"
      by (metis less_imp_le of_int_le_iff of_int_numeral of_int_power)
    have "?e0 - 1 = (bitlen a - 1) - bitlen b" by simp
    moreover have "(2::rat) powi ((bitlen a - 1) - bitlen b) =
        2 powi (bitlen a - 1) / 2 powi (bitlen b)"
      by (rule power_int_diff) simp
    ultimately have "(2::rat) powi (?e0 - 1) = 2 powi (bitlen a - 1) / 2 powi (bitlen b)"
      by (simp only:)
    also have "(2::rat) powi (bitlen a - 1) = 2 ^ nat (bitlen a - 1)"
      using la by (intro power_int_nonneg_exp) simp
    also have "(2::rat) powi (bitlen b) = 2 ^ nat (bitlen b)"
      using lb by (intro power_int_nonneg_exp) simp
    finally have "2 powi (?e0 - 1) = (2::rat) ^ nat (bitlen a - 1) / 2 ^ nat (bitlen b)" .
    also have "\<dots> \<le> of_int a / of_int b"
      using 1 2 b a by (intro frac_le) simp_all
    finally have "2 powi (?e0 - 1) \<le> q" by (simp only: q)
    then show ?thesis using False by (simp add: floor_log2_def ab)
  qed
qed

lemma fl64_exact:
  assumes m: "\<bar>m\<bar> < 2 ^ 53" and k: "- 1074 \<le> k"
  shows "fl64 (of_int m * 2 powi k) = of_int m * 2 powi k"
proof (cases "m = 0")
  case True
  then show ?thesis by (simp add: fl64_def)
next
  case False
  let ?q = "of_int m * 2 powi k :: rat"
  let ?e = "max (floor_log2 \<bar>?q\<bar>) (- 1022)"
  have q0: "?q \<noteq> 0" using False by simp
  have pos: "0 < \<bar>?q\<bar>" using q0 by simp
  have e: "?e - 52 \<le> k"
  proof (cases "floor_log2 \<bar>?q\<bar> \<le> - 1022")
    case True
    then show ?thesis using k by simp
  next
    case False
    have "2 powi (floor_log2 \<bar>?q\<bar>) \<le> \<bar>?q\<bar>" by (rule floor_log2_le [OF pos])
    also have "\<bar>?q\<bar> = of_int \<bar>m\<bar> * 2 powi k" by (simp add: abs_mult power_int_abs)
    also have "\<dots> < 2 ^ 53 * 2 powi k"
    proof -
      have "(of_int \<bar>m\<bar> :: rat) < 2 ^ 53"
        using m by (metis of_int_less_iff of_int_numeral of_int_power)
      then show ?thesis by (simp add: mult_strict_right_mono)
    qed
    also have "\<dots> = 2 powi (53 + k)"
      by (simp add: power_int_add)
    finally have "(2::rat) powi (floor_log2 \<bar>?q\<bar>) < 2 powi (53 + k)" .
    then have "floor_log2 \<bar>?q\<bar> < 53 + k"
      using power_int_increasing [of "53 + k" "floor_log2 \<bar>?q\<bar>" "2::rat"]
      by (cases "floor_log2 \<bar>?q\<bar> < 53 + k") simp_all
    then show ?thesis using False by simp
  qed
  define j where "j = nat (k - (?e - 52))"
  have kj: "k = (?e - 52) + int j" using e by (simp add: j_def)
  have "?q / 2 powi (?e - 52) = of_int m * 2 ^ j"
    by (subst kj) (simp add: power_int_add)
  also have "\<dots> = of_int (m * 2 ^ j)" by simp
  finally have "round_half_even (?q / 2 powi (?e - 52)) = m * 2 ^ j"
    by (simp only: round_half_even_of_int)
  then have "fl64 ?q = of_int (m * 2 ^ j) * 2 powi (?e - 52)"
    using q0 by (simp add: fl64_def Let_def)
  also have "\<dots> = of_int m * (2 powi int j * 2 powi (?e - 52))" by simp
  also have "2 powi int j * 2 powi (?e - 52) = (2::rat) powi k"
    by (subst kj) (simp add: power_int_add)
  finally show ?thesis .
qed

lemma max_float_large: "2 ^ 53 \<le> max_float"
  by (simp add: max_float_def)

lemma fl64_of_int: "\<bar>z\<bar> < 2 ^ 53 \<Longrightarrow> fl64 (of_int z) = of_int z"
  using fl64_exact [of z 0] by simp

lemma fl64_quarters: "\<bar>z\<bar> < 2 ^ 53 \<Longrightarrow> fl64 (of_int z / 4) = of_int z / 4"
proof -
  assume z: "\<bar>z\<bar> < 2 ^ 53"
  have "(2::rat) powi (- 2) = 1 / 4" by (simp add: power_int_minus_divide)
  with fl64_exact [OF z, of "- 2"] show ?thesis by simp
qed

lemma float_of_int_exact: "\<bar>z\<bar> < 2 ^ 53 \<Longrightarrow> float_of_int z = Inr (of_int z)"
proof -
  assume z: "\<bar>z\<bar> < 2 ^ 53"
  then have "\<bar>of_int z :: rat\<bar> < 2 ^ 53"
    by (metis of_int_abs of_int_less_iff of_int_numeral of_int_power)
  with max_float_large have "\<not> max_float < \<bar>of_int z :: rat\<bar>" by linarith
  then show ?thesis by (simp add: float_of_int_def fl64_of_int [OF z])
qed

subsection \<open>The manager's operations\<close>

lemma distance_gt_5_iff:
  "distance s e > 5 \<longleftrightarrow> (fst e - fst s)\<^sup>2 + (snd e - snd s)\<^sup>2 > 25"
proof -
  have "5 = sqrt 25" by simp
  then have "distance s e > 5 \<longleftrightarrow>
      sqrt 25 < sqrt (real_of_int ((fst e - fst s)\<^sup>2 + (snd e - snd s)\<^sup>2))"
    by (simp add: distance_def)
  also have "\<dots> \<longleftrightarrow> 25 < real_of_int ((fst e - fst s)\<^sup>2 + (snd e - snd s)\<^sup>2)"
    by (rule real_sqrt_less_iff)
  also have "\<dots> \<longleftrightarrow> 25 < (fst e - fst s)\<^sup>2 + (snd e - snd s)\<^sup>2"
    by linarith
  finally show ?thesis .
qed

lemma distance_gt_5_squared: "distance s e > 5 \<longleftrightarrow> 25 < squared_distance s e"
  by (simp add: distance_gt_5_iff squared_distance_def)

lemma np_sqrt_squared_distance:
  "np_sqrt (squared_distance s e) =
     (if 2 ^ 64 \<le> squared_distance s e then Inl TypeError else Inr (distance s e))"
  by (simp add: np_sqrt_def distance_def squared_distance_def)

lemma deque_extend_snoc: "deque_append (deque_extend d xs) x = deque_extend d (xs @ [x])"
  by (simp add: deque_extend_def)

lemma deque_extend_Nil: "deque_extend d [] = d"
  by (simp add: deque_extend_def)

lemma deque_extend_Cons: "deque_extend d (x # xs) = deque_extend (deque_append d x) xs"
  by (simp add: deque_extend_def)

lemma deque_extend_single: "deque_extend d [x] = deque_append d x"
  by (simp add: deque_extend_def)

lemma deque_extend_append:
  "deque_extend d (xs @ ys) = deque_extend (deque_extend d xs) ys"
  by (simp add: deque_extend_def)

lemma interpolation_loop_samples:
  "interpolation_loop d s e now n is =
     (deque_extend d (fst (loop_samples s e now n is)), snd (loop_samples s e now n is))"
proof (induction "is" arbitrary: d)
  case Nil
  show ?case by (simp add: deque_extend_Nil)
next
  case (Cons i "is")
  show ?case
  proof (cases "interpolated_sample s e now n i")
    case (Inl err)
    then show ?thesis by (simp add: deque_extend_Nil)
  next
    case (Inr smp)
    then show ?thesis
      by (simp add: Cons.IH deque_extend_Cons split: prod.splits)
  qed
qed

lemma add_interpolated_points_samples:
  "add_interpolated_points m s e now n =
     (m\<lparr>trajectory_points :=
          deque_extend (trajectory_points m) (fst (interpolation_samples s e now n))\<rparr>,
      snd (interpolation_samples s e now n))"
proof (cases "2 ^ 64 \<le> squared_distance s e")
  case True
  then show ?thesis
    by (simp add: add_interpolated_points_def interpolation_samples_def
        np_sqrt_squared_distance deque_extend_Nil)
next
  case False
  show ?thesis
  proof (cases "distance s e > 5")
    case far: True
    obtain xs r where l: "loop_samples s e now n [1..n] = (xs, r)"
      by (cases "loop_samples s e now n [1..n]")
    show ?thesis
      using False far
      by (cases r)
        (simp_all add: add_interpolated_points_def interpolation_samples_def
          np_sqrt_squared_distance interpolation_loop_samples l deque_extend_snoc)
  next
    case near: False
    then show ?thesis
      using False
      by (simp add: add_interpolated_points_def interpolation_samples_def
          np_sqrt_squared_distance deque_extend_single)
  qed
qed

lemma trajectory_points_update_position:
  "trajectory_points (fst (update_position m p now)) =
     deque_extend (trajectory_points m) (appended_samples m p now)"
  by (cases "current_position m")
    (auto simp: update_position_def appended_samples_def Let_def
      add_interpolated_points_samples deque_extend_single)

lemma update_position_fields:
  "current_position (fst (update_position m p now)) = Some p"
  "last_position (fst (update_position m p now)) =
     (if trajectory_break_pending m then None else current_position m)"
  "interpolate_motion (fst (update_position m p now)) = interpolate_motion m"
  "trajectory_break_pending (fst (update_position m p now)) = False"
  by (simp_all add: update_position_def Let_def add_interpolated_points_samples)

lemma trajectory_points_break_trajectory:
  "trajectory_points (break_trajectory m) = trajectory_points m"
  by (simp add: break_trajectory_def)

lemma trajectory_points_run_calls:
  "trajectory_points (run_calls m cs) = deque_extend (trajectory_points m) (appended_log m cs)"
proof (induction cs arbitrary: m)
  case Nil
  show ?case by (simp add: run_calls_def deque_extend_Nil)
next
  case (Cons c cs)
  show ?case
  proof (cases c)
    case (Update p now)
    have "trajectory_points (run_calls m (c # cs)) =
        trajectory_points (run_calls (fst (update_position m p now)) cs)"
      by (simp add: run_calls_def Update)
    also have "\<dots> = deque_extend (trajectory_points (fst (update_position m p now)))
        (appended_log (fst (update_position m p now)) cs)"
      by (rule Cons.IH)
    finally show ?thesis
      by (simp add: Update trajectory_points_update_position deque_extend_append)
  next
    case Break
    have "trajectory_points (run_calls m (c # cs)) =
        trajectory_points (run_calls (break_trajectory m) cs)"
      by (simp add: run_calls_def Break)
    also have "\<dots> = deque_extend (trajectory_points (break_trajectory m))
        (appended_log (break_trajectory m) cs)"
      by (rule Cons.IH)
    finally show ?thesis
      by (simp add: Break trajectory_points_break_trajectory)
  qed
qed

lemma TrajectoryManager_init_buffer:
  assumes "TrajectoryManager_init n t0 = Inr m0"
  shows "trajectory_points m0 = deque_new (nat n)" and "0 \<le> n"
  using assms by (auto simp: TrajectoryManager_init_def split: if_splits)

lemma add_interpolated_points_code [code]:
  "add_interpolated_points m start_pos end_pos now num_interpolated =
     (if 2 ^ 64 \<le> squared_distance start_pos end_pos then (m, Some TypeError)
      else let (d1, raised) =
                 (if 25 < squared_distance start_pos end_pos
                  then interpolation_loop (trajectory_points m) start_pos end_pos now
                         num_interpolated [1..num_interpolated]
                  else (trajectory_points m, None))
           in case raised of
                Some e \<Rightarrow> (m\<lparr>trajectory_points := d1\<rparr>, Some e)
              | None \<Rightarrow>
                  (m\<lparr>trajectory_points :=
                       deque_append d1 (Sample (fst end_pos) (snd end_pos) now False)\<rparr>,
                   None))"
  by (simp add: add_interpolated_points_def np_sqrt_squared_distance distance_gt_5_squared)

lemma interpolation_samples_code [code]:
  "interpolation_samples start_pos end_pos now n =
     (if 2 ^ 64 \<le> squared_distance start_pos end_pos then ([], Some TypeError)
      else let (xs, raised) =
                 (if 25 < squared_distance start_pos end_pos
                  then loop_samples start_pos end_pos now n [1..n] else ([], None))
           in case raised of
                Some e \<Rightarrow> (xs, Some e)
              | None \<Rightarrow> (xs @ [Sample (fst end_pos) (snd end_pos) now False], None))"
  by (simp add: interpolation_samples_def distance_gt_5_squared)

subsection \<open>Pixel coordinates: the float operations are exact\<close>

lemma rat_abs_less: "\<bar>z\<bar> < 2 ^ 53 \<Longrightarrow> \<bar>of_int z :: rat\<bar> < 2 ^ 53"
  by (metis of_int_abs of_int_less_iff of_int_numeral of_int_power)

lemma true_div_quarter: "k \<in> {1, 2, 3} \<Longrightarrow> true_div k 4 = Inr (of_int k / 4)"
proof -
  assume k: "k \<in> {1, 2, 3}"
  then have b: "\<bar>k\<bar> < 2 ^ 53" by auto
  have "\<bar>of_int k / 4 :: rat\<bar> \<le> \<bar>of_int k\<bar>" by simp
  also have "\<dots> < 2 ^ 53" by (rule rat_abs_less [OF b])
  finally have "\<not> max_float < \<bar>of_int k / 4 :: rat\<bar>"
    using max_float_large by linarith
  then show ?thesis by (simp add: true_div_def fl64_quarters [OF b])
qed

lemma interp_pixel:
  assumes a: "pixel a" and b: "pixel b" and k: "k \<in> {1, 2, 3}"
  shows "interp a b (of_int k / 4) = Inr (py_int (evenly_spaced a b k 3))"
proof -
  from a b have ab: "\<bar>a\<bar> < 2 ^ 22" "\<bar>b\<bar> < 2 ^ 22" by (simp_all add: pixel_def)
  have d: "\<bar>b - a\<bar> < 2 ^ 53" using ab by simp
  have p: "\<bar>k * (b - a)\<bar> < 2 ^ 53" using ab k by auto
  have s: "\<bar>4 * a + k * (b - a)\<bar> < 2 ^ 53" using ab k by auto
  have a53: "\<bar>a\<bar> < 2 ^ 53" using ab by simp
  have prod: "fl64 (of_int k / 4 * of_int (b - a)) = of_int (k * (b - a)) / 4"
    using fl64_quarters [OF p] by simp
  have sum: "fl64 (of_int a + of_int (k * (b - a)) / 4) = of_int (4 * a + k * (b - a)) / 4"
    using fl64_quarters [OF s] by (simp add: field_simps)
  have "\<bar>of_int (k * (b - a)) / 4 :: rat\<bar> \<le> \<bar>of_int (k * (b - a))\<bar>" by simp
  also have "\<dots> < 2 ^ 53" by (rule rat_abs_less [OF p])
  finally have np: "\<not> max_float < \<bar>of_int (k * (b - a)) / 4 :: rat\<bar>"
    using max_float_large by linarith
  have "\<bar>of_int (4 * a + k * (b - a)) / 4 :: rat\<bar> \<le> \<bar>of_int (4 * a + k * (b - a))\<bar>" by simp
  also have "\<dots> < 2 ^ 53" by (rule rat_abs_less [OF s])
  finally have ns: "\<not> max_float < \<bar>of_int (4 * a + k * (b - a)) / 4 :: rat\<bar>"
    using max_float_large by linarith
  have e: "evenly_spaced a b k 3 = of_int (4 * a + k * (b - a)) / 4"
    by (simp add: evenly_spaced_def field_simps)
  show ?thesis
    by (simp only: interp_def float_of_int_exact [OF d] float_of_int_exact [OF a53]
        sum.case Let_def prod sum np ns e if_False simp_thms)
qed

lemma interpolated_sample_pixel:
  assumes "pixel_point s" "pixel_point e" "k \<in> {1, 2, 3}"
  shows "interpolated_sample s e now 3 k =
     Inr (Sample (py_int (evenly_spaced (fst s) (fst e) k 3))
                 (py_int (evenly_spaced (snd s) (snd e) k 3)) now False)"
  using assms
  by (simp add: interpolated_sample_def true_div_quarter interp_pixel pixel_point_def)

lemma upto_1_3: "[1..3::int] = [1, 2, 3]"
  by (simp add: upto.simps)

lemma loop_samples_pixel:
  assumes "pixel_point s" "pixel_point e"
  shows "loop_samples s e now 3 [1..3] =
     (map (\<lambda>k. Sample (py_int (evenly_spaced (fst s) (fst e) k 3))
                       (py_int (evenly_spaced (snd s) (snd e) k 3)) now False) [1, 2, 3],
      None)"
  by (simp add: upto_1_3 interpolated_sample_pixel [OF assms])

lemma pixel_squared_distance:
  assumes "pixel_point s" "pixel_point e"
  shows "squared_distance s e < 2 ^ 64"
proof -
  have sq: "d\<^sup>2 < (2 ^ 23)\<^sup>2" if "\<bar>d\<bar> < 2 ^ 23" for d :: int
  proof -
    have "\<bar>d\<bar>\<^sup>2 < (2 ^ 23)\<^sup>2" using that by (intro power_strict_mono) simp_all
    then show ?thesis by simp
  qed
  from assms have "\<bar>fst e - fst s\<bar> < 2 ^ 23" "\<bar>snd e - snd s\<bar> < 2 ^ 23"
    by (auto simp: pixel_point_def pixel_def)
  then have "(fst e - fst s)\<^sup>2 < (2 ^ 23)\<^sup>2" "(snd e - snd s)\<^sup>2 < (2 ^ 23)\<^sup>2"
    by (simp_all only: sq)
  then show ?thesis by (simp add: squared_distance_def)
qed

lemma interpolation_samples_pixel:
  assumes "pixel_point s" "pixel_point e"
  shows "interpolation_samples s e now 3 =
     ((if 5 < distance s e
       then map (\<lambda>k. Sample (py_int (evenly_spaced (fst s) (fst e) k 3))
                         (py_int (evenly_spaced (snd s) (snd e) k 3)) now False) [1, 2, 3]
       else []) @ [Sample (fst e) (snd e) now False], None)"
  using pixel_squared_distance [OF assms]
  by (simp add: interpolation_samples_def loop_samples_pixel [OF assms])

subsection \<open>Claim C1\<close>

lemma init_fresh_manager: "0 \<le> n \<Longrightarrow> TrajectoryManager_init n 0 = Inr (fresh_manager n)"
  by (simp add: TrajectoryManager_init_def fresh_manager_def)

text \<open>
  Claim C1. The trail buffer is a bounded first-in first-out queue. For a manager built
  with capacity \<open>n\<close> (\<open>100\<close> by default) and every sequence of \<^verbatim>\<open>update_position\<close>
  calls (with break requests anywhere between them): the capacity stays \<open>n\<close>; the
  buffer never holds more than \<open>n\<close> samples; while the number of samples appended so
  far, interpolated ones included, is at most \<open>n\<close>, the buffer is exactly the list of
  the appended samples; once more than \<open>n\<close> were appended, the buffer holds exactly
  \<open>n\<close> samples, namely the \<open>n\<close> appended last, in the order of their insertion.
\<close>

theorem trail_buffer_bounded_fifo:
  assumes init: "TrajectoryManager_init n t0 = Inr m0"
  shows "let cap = maxlen (trajectory_points (run_calls m0 calls));
             buf = get_trajectory_copy (run_calls m0 calls);
             log = appended_log m0 calls
         in cap = nat n \<and> (n = default_trail_length \<longrightarrow> cap = 100) \<and>
            length buf \<le> cap \<and>
            (length log \<le> cap \<longrightarrow> buf = log) \<and>
            (cap < length log \<longrightarrow> length buf = cap \<and> buf = drop (length log - cap) log)"
proof -
  let ?d0 = "deque_new (nat n) :: point_data deque"
  have d0: "trajectory_points m0 = ?d0"
    using init by (rule TrajectoryManager_init_buffer)
  have inv: "length (items ?d0) \<le> maxlen ?d0"
    by (simp add: deque_new_def)
  have tp: "trajectory_points (run_calls m0 calls) = deque_extend ?d0 (appended_log m0 calls)"
    by (simp add: trajectory_points_run_calls d0)
  have cap: "maxlen (trajectory_points (run_calls m0 calls)) = nat n"
    by (simp add: tp deque_new_def)
  have buf: "get_trajectory_copy (run_calls m0 calls) =
      drop (length (appended_log m0 calls) - nat n) (appended_log m0 calls)"
    using items_deque_extend [OF inv, of "appended_log m0 calls"]
    by (simp add: get_trajectory_copy_def tp deque_new_def)
  show ?thesis
    unfolding Let_def cap buf by (auto simp: default_trail_length_def)
qed

theorem trail_buffer_bounded_fifo_witness:
  "TrajectoryManager_init 2 0 = Inr (fresh_manager 2) \<and>
   appended_log (fresh_manager 2) [Update (0, 0) 1, Update (100, 0) 2] =
     [Sample 0 0 1 True, Sample 25 0 2 False, Sample 50 0 2 False, Sample 75 0 2 False,
      Sample 100 0 2 False] \<and>
   get_trajectory_copy (run_calls (fresh_manager 2) [Update (0, 0) 1, Update (100, 0) 2]) =
     [Sample 75 0 2 False, Sample 100 0 2 False]"
proof -
  have v: "py_int (evenly_spaced 0 100 1 3) = 25" "py_int (evenly_spaced 0 100 2 3) = 50"
    "py_int (evenly_spaced 0 100 3 3) = 75" "py_int (evenly_spaced 0 0 1 3) = 0"
    "py_int (evenly_spaced 0 0 2 3) = 0" "py_int (evenly_spaced 0 0 3 3) = 0"
    by (simp_all add: evenly_spaced_def py_int_def)
  have px: "pixel_point (0, 0)" "pixel_point (100, 0)"
    by (simp_all add: pixel_point_def pixel_def)
  have far: "5 < distance (0, 0) (100, 0)" by (simp add: distance_gt_5_iff)
  have log: "appended_log (fresh_manager 2) [Update (0, 0) 1, Update (100, 0) 2] =
     [Sample 0 0 1 True, Sample 25 0 2 False, Sample 50 0 2 False, Sample 75 0 2 False,
      Sample 100 0 2 False]"
    using far
    by (simp add: appended_samples_def update_position_fields default_num_interpolated_def
        interpolation_samples_pixel [OF px] v)
      (simp add: fresh_manager_def)
  let ?calls = "[Update (0, 0) 1, Update (100, 0) 2]"
  have init: "TrajectoryManager_init 2 0 = Inr (fresh_manager 2)"
    by (rule init_fresh_manager) simp
  note t = trail_buffer_bounded_fifo [OF init, of ?calls, unfolded Let_def]
  from t have cap: "maxlen (trajectory_points (run_calls (fresh_manager 2) ?calls)) = nat 2"
    by blast
  from t have "maxlen (trajectory_points (run_calls (fresh_manager 2) ?calls)) <
      length (appended_log (fresh_manager 2) ?calls) \<longrightarrow>
      get_trajectory_copy (run_calls (fresh_manager 2) ?calls) =
      drop (length (appended_log (fresh_manager 2) ?calls) -
            maxlen (trajectory_points (run_calls (fresh_manager 2) ?calls)))
        (appended_log (fresh_manager 2) ?calls)"
    by blast
  then have "get_trajectory_copy (run_calls (fresh_manager 2) ?calls) =
      [Sample 75 0 2 False, Sample 100 0 2 False]"
    unfolding cap log by simp
  with init log show ?thesis by blast
qed

subsection \<open>Claim C2\<close>


lemma py_int_close: "\<bar>of_int (py_int q) - q\<bar> < 1"
  unfolding py_int_def by (cases "0 \<le> q") (simp_all, linarith+)







lemma update_position_interpolating:
  assumes "\<not> trajectory_break_pending m" "current_position m = Some lp" "interpolate_motion m"
  shows "update_position m p now =
     (m\<lparr>last_position := Some lp, current_position := Some p,
        trajectory_points := deque_extend (trajectory_points m)
          (fst (interpolation_samples lp p now 3))\<rparr>,
      snd (interpolation_samples lp p now 3))"
  using assms
  by (simp add: update_position_def Let_def add_interpolated_points_samples
      default_num_interpolated_def)


lemma moving_manager_state:
  "trajectory_points moving_manager = \<lparr>maxlen = 100, items = [Sample (-3) 0 1 True]\<rparr>"
  "\<not> trajectory_break_pending moving_manager"
  "current_position moving_manager = Some (-3, 0)"
  "interpolate_motion moving_manager"
  by (simp_all add: moving_manager_def trajectory_points_update_position appended_samples_def
      update_position_fields fresh_manager_def deque_extend_def deque_append_def deque_new_def)


subsection \<open>Claim C3\<close>

lemma update_position_no_previous:
  assumes "trajectory_break_pending m \<or> current_position m = None"
  shows "update_position m p now =
     (m\<lparr>last_position := None, trajectory_break_pending := False, current_position := Some p,
        trajectory_points :=
          deque_append (trajectory_points m) (Sample (fst p) (snd p) now True)\<rparr>, None)"
  using assms by (auto simp: update_position_def Let_def)

lemma update_position_not_interpolating:
  "\<not> interpolate_motion m \<Longrightarrow> snd (update_position m p now) = None"
  by (simp add: update_position_def Let_def)

lemma loop_samples_tagged:
  "x \<in> set (fst (loop_samples s e now n is)) \<Longrightarrow> \<exists>a b. x = Sample a b now False"
proof (induction "is")
  case Nil
  then show ?case by simp
next
  case (Cons i "is")
  show ?case
  proof (cases "interpolated_sample s e now n i")
    case (Inl err)
    with Cons.prems show ?thesis by simp
  next
    case (Inr smp)
    obtain xs r where l: "loop_samples s e now n is = (xs, r)"
      by (cases "loop_samples s e now n is")
    from Inr have "\<exists>a b. smp = Sample a b now False"
      by (auto simp: interpolated_sample_def split: sum.splits)
    with Cons.prems Cons.IH Inr l show ?thesis by auto
  qed
qed

lemma interpolation_samples_tagged:
  assumes "x \<in> set (fst (interpolation_samples s e now n))"
  shows "\<exists>a b. x = Sample a b now False"
proof -
  obtain xs r where l: "loop_samples s e now n [1..n] = (xs, r)"
    by (cases "loop_samples s e now n [1..n]")
  have xs: "\<forall>y \<in> set xs. \<exists>a b. y = Sample a b now False"
    using loop_samples_tagged [of _ s e now n "[1..n]"] l by simp
  from assms have "x \<in> set xs \<or> x = Sample (fst e) (snd e) now False"
    by (cases r) (auto simp: interpolation_samples_def l split: if_splits)
  with xs show ?thesis by blast
qed

text \<open>
  Claim C3. \<^verbatim>\<open>break_trajectory\<close> sets the flag \<^verbatim>\<open>trajectory_break_pending\<close> and changes
  nothing else (a second request changes nothing more). The next
  \<^verbatim>\<open>update_position(p)\<close> raises nothing, leaves \<^verbatim>\<open>last_position\<close> unset, clears the flag
  and appends exactly one sample, \<open>p\<close> tagged \<open>True\<close>, as the update of a manager
  without a current position does. The update after that one has \<open>p\<close> as its previous
  position and appends samples tagged \<open>False\<close> only: the samples of the interpolation
  from \<open>p\<close> when interpolation is on (for pixel coordinates the three evenly spaced
  points when the distance exceeds 5, and the destination), the destination alone when
  it is off.
\<close>

theorem break_is_deferred:
  "break_trajectory m = m\<lparr>trajectory_break_pending := True\<rparr> \<and>
   break_trajectory (break_trajectory m) = break_trajectory m \<and>
   snd (update_position (break_trajectory m) p now) = None \<and>
   (let m' = fst (update_position (break_trajectory m) p now)
    in last_position m' = None \<and> \<not> trajectory_break_pending m' \<and>
       current_position m' = Some p \<and>
       trajectory_points m' =
         deque_append (trajectory_points m) (Sample (fst p) (snd p) now True) \<and>
       update_position (break_trajectory m) p now =
         update_position (m\<lparr>current_position := None, trajectory_break_pending := False\<rparr>)
           p now \<and>
       (let r = update_position m' q now'; m'' = fst r;
            appended = (if interpolate_motion m then fst (interpolation_samples p q now' 3)
                        else [Sample (fst q) (snd q) now' False])
        in last_position m'' = Some p \<and> \<not> trajectory_break_pending m'' \<and>
           current_position m'' = Some q \<and>
           trajectory_points m'' = deque_extend (trajectory_points m') appended \<and>
           snd r = (if interpolate_motion m then snd (interpolation_samples p q now' 3)
                    else None) \<and>
           list_all (\<lambda>s. \<exists>x y. s = Sample x y now' False) appended \<and>
           (pixel_point p \<and> pixel_point q \<longrightarrow>
              interpolation_samples p q now' 3 =
                ((if 5 < distance p q
                  then map (\<lambda>k. Sample (py_int (evenly_spaced (fst p) (fst q) k 3))
                                    (py_int (evenly_spaced (snd p) (snd q) k 3))
                                    now' False) [1, 2, 3]
                  else []) @ [Sample (fst q) (snd q) now' False], None))))"
proof -
  let ?m' = "fst (update_position (break_trajectory m) p now)"
  let ?app = "if interpolate_motion m then fst (interpolation_samples p q now' 3)
              else [Sample (fst q) (snd q) now' False]"
  have up: "update_position (break_trajectory m) p now =
      (m\<lparr>last_position := None, trajectory_break_pending := False,
         current_position := Some p,
         trajectory_points :=
           deque_append (trajectory_points m) (Sample (fst p) (snd p) now True)\<rparr>, None)"
    by (simp add: update_position_no_previous break_trajectory_def)
  have same: "update_position (break_trajectory m) p now =
      update_position (m\<lparr>current_position := None, trajectory_break_pending := False\<rparr>) p now"
    by (simp add: up update_position_no_previous)
  have first: "last_position ?m' = None" "\<not> trajectory_break_pending ?m'"
    "current_position ?m' = Some p"
    "trajectory_points ?m' =
       deque_append (trajectory_points m) (Sample (fst p) (snd p) now True)"
    "interpolate_motion ?m' = interpolate_motion m"
    "snd (update_position (break_trajectory m) p now) = None"
    by (simp_all add: up)
  have next_samples: "appended_samples ?m' q now' = ?app"
    by (simp add: appended_samples_def first default_num_interpolated_def)
  have fields: "last_position (fst (update_position ?m' q now')) = Some p"
    "\<not> trajectory_break_pending (fst (update_position ?m' q now'))"
    "current_position (fst (update_position ?m' q now')) = Some q"
    by (simp_all add: update_position_fields first)
  have tp: "trajectory_points (fst (update_position ?m' q now')) =
      deque_extend (trajectory_points ?m') ?app"
    by (simp only: trajectory_points_update_position next_samples)
  have raised: "snd (update_position ?m' q now') =
      (if interpolate_motion m then snd (interpolation_samples p q now' 3) else None)"
  proof (cases "interpolate_motion m")
    case True
    then show ?thesis
      using update_position_interpolating [of ?m' p q now'] first by simp
  next
    case False
    then have "\<not> interpolate_motion ?m'" by (simp add: first)
    from update_position_not_interpolating [OF this] False show ?thesis by simp
  qed
  have tagged: "list_all (\<lambda>s. \<exists>x y. s = Sample x y now' False) ?app"
    using interpolation_samples_tagged [of _ p q now' 3] by (auto simp: list_all_iff)
  have pix: "pixel_point p \<and> pixel_point q \<longrightarrow>
      interpolation_samples p q now' 3 =
        ((if 5 < distance p q
          then map (\<lambda>k. Sample (py_int (evenly_spaced (fst p) (fst q) k 3))
                            (py_int (evenly_spaced (snd p) (snd q) k 3))
                            now' False) [1, 2, 3]
          else []) @ [Sample (fst q) (snd q) now' False], None)"
    using interpolation_samples_pixel [of p q now'] by simp
  show ?thesis
    unfolding Let_def
    using first fields tp raised tagged pix same
    by (simp add: break_trajectory_def)
qed

theorem break_is_deferred_witness:
  "get_trajectory_copy (break_trajectory moving_manager) = [Sample (-3) 0 1 True] \<and>
   trajectory_break_pending (break_trajectory moving_manager) \<and>
   snd (update_position (break_trajectory moving_manager) (90, 40) 2) = None \<and>
   get_trajectory_copy (fst (update_position (break_trajectory moving_manager) (90, 40) 2)) =
     [Sample (-3) 0 1 True, Sample 90 40 2 True] \<and>
   \<not> trajectory_break_pending
       (fst (update_position (break_trajectory moving_manager) (90, 40) 2)) \<and>
   pixel_point (90, 40) \<and> pixel_point (0, 0) \<and>
   snd (update_position (fst (update_position (break_trajectory moving_manager) (90, 40) 2))
       (0, 0) 3) = None \<and>
   last_position (fst (update_position
       (fst (update_position (break_trajectory moving_manager) (90, 40) 2)) (0, 0) 3)) =
     Some (90, 40) \<and>
   get_trajectory_copy (fst (update_position
       (fst (update_position (break_trajectory moving_manager) (90, 40) 2)) (0, 0) 3)) =
     [Sample (-3) 0 1 True, Sample 90 40 2 True, Sample 67 30 3 False,
      Sample 45 20 3 False, Sample 22 10 3 False, Sample 0 0 3 False]"
proof -
  note st = moving_manager_state
  let ?m' = "fst (update_position (break_trajectory moving_manager) (90, 40) 2)"
  let ?r = "update_position ?m' (0, 0) 3"
  note inst = break_is_deferred [of moving_manager "(90, 40)" 2 "(0, 0)" 3,
      unfolded Let_def fst_conv snd_conv]
  from inst have 1: "break_trajectory moving_manager =
      moving_manager\<lparr>trajectory_break_pending := True\<rparr>"
    by (rule conjunct1)
  from inst have 2: "trajectory_points ?m' =
      deque_append (trajectory_points moving_manager) (Sample 90 40 2 True)"
    by blast
  from inst have 3: "\<not> trajectory_break_pending ?m'"
    by blast
  from inst have 5: "snd (update_position (break_trajectory moving_manager) (90, 40) 2) = None"
    by blast
  have 4: "trajectory_break_pending (break_trajectory moving_manager)"
    "trajectory_points (break_trajectory moving_manager) = trajectory_points moving_manager"
    by (simp_all add: 1)
  have px: "pixel_point (90, 40)" "pixel_point (0, 0)"
    by (simp_all add: pixel_point_def pixel_def)
  have far: "5 < distance (90, 40) (0, 0)"
    by (simp add: distance_gt_5_iff squared_distance_def)
  have vals: "py_int (evenly_spaced 90 0 1 3) = 67" "py_int (evenly_spaced 90 0 2 3) = 45"
    "py_int (evenly_spaced 90 0 3 3) = 22" "py_int (evenly_spaced 40 0 1 3) = 30"
    "py_int (evenly_spaced 40 0 2 3) = 20" "py_int (evenly_spaced 40 0 3 3) = 10"
    by code_simp+
  from inst px have "interpolation_samples (90, 40) (0, 0) 3 3 =
      ((if 5 < distance (90, 40) (0, 0)
        then map (\<lambda>k. Sample (py_int (evenly_spaced 90 0 k 3)) (py_int (evenly_spaced 40 0 k 3))
                          3 False) [1, 2, 3]
        else []) @ [Sample 0 0 3 False], None)"
    by blast
  then have smp: "interpolation_samples (90, 40) (0, 0) 3 3 =
      ([Sample 67 30 3 False, Sample 45 20 3 False, Sample 22 10 3 False, Sample 0 0 3 False],
       None)"
    by (simp add: far vals)
  from inst have f: "last_position (fst ?r) = Some (90, 40)"
    "\<not> trajectory_break_pending (fst ?r)" "current_position (fst ?r) = Some (0, 0)"
    by blast+
  from inst have t: "trajectory_points (fst ?r) =
      deque_extend (trajectory_points ?m')
        (if interpolate_motion moving_manager
         then fst (interpolation_samples (90, 40) (0, 0) 3 3) else [Sample 0 0 3 False])"
    by blast
  from inst have r: "snd ?r =
      (if interpolate_motion moving_manager
       then snd (interpolation_samples (90, 40) (0, 0) 3 3) else None)"
    by blast
  have a: "get_trajectory_copy (break_trajectory moving_manager) = [Sample (-3) 0 1 True]"
    "get_trajectory_copy ?m' = [Sample (-3) 0 1 True, Sample 90 40 2 True]"
    by (simp_all add: get_trajectory_copy_def 2 4 st deque_append_def)
  have t': "trajectory_points (fst ?r) = \<lparr>maxlen = 100, items =
      [Sample (-3) 0 1 True, Sample 90 40 2 True, Sample 67 30 3 False,
       Sample 45 20 3 False, Sample 22 10 3 False, Sample 0 0 3 False]\<rparr>"
    by (simp add: t 2 st smp deque_extend_def deque_append_def)
  have r': "snd ?r = None"
    by (simp add: r st smp)
  have c: "get_trajectory_copy (fst ?r) =
      [Sample (-3) 0 1 True, Sample 90 40 2 True, Sample 67 30 3 False,
       Sample 45 20 3 False, Sample 22 10 3 False, Sample 0 0 3 False]"
    by (simp add: get_trajectory_copy_def t')
  from a 4(1) 5 3 px r' f(1) c show ?thesis by blast
qed

subsection \<open>Claim C8\<close>

lemma clear_trail_fields:
  "trajectory_points (clear_trail m) = deque_clear (trajectory_points m)"
  "current_position (clear_trail m) = None"
  "last_position (clear_trail m) = None"
  "trajectory_break_pending (clear_trail m) = trajectory_break_pending m"
  by (simp_all add: clear_trail_def)

text \<open>
  Claim C8. \<^verbatim>\<open>clear_trail\<close> empties the buffer (its capacity stays) and unsets
  \<^verbatim>\<open>current_position\<close> and \<^verbatim>\<open>last_position\<close>, so the snapshot taken right after it is
  empty. The first \<^verbatim>\<open>update_position(p)\<close> after it raises nothing and appends one
  sample, \<open>p\<close> tagged \<open>True\<close>, to the empty buffer. \<^verbatim>\<open>disable_drawing\<close> clears the
  drawing flag and performs this same clear on the widget's manager.
\<close>

theorem clear_resets_trail:
  "get_trajectory_copy (clear_trail m) = [] \<and>
   current_position (clear_trail m) = None \<and>
   last_position (clear_trail m) = None \<and>
   maxlen (trajectory_points (clear_trail m)) = maxlen (trajectory_points m) \<and>
   snd (update_position (clear_trail m) p now) = None \<and>
   trajectory_points (fst (update_position (clear_trail m) p now)) =
     deque_append (deque_clear (trajectory_points m)) (Sample (fst p) (snd p) now True) \<and>
   get_trajectory_copy (fst (update_position (clear_trail m) p now)) =
     (if maxlen (trajectory_points m) = 0 then [] else [Sample (fst p) (snd p) now True]) \<and>
   trajectory_manager (disable_drawing w) = clear_trail (trajectory_manager w) \<and>
   \<not> drawing_enabled (disable_drawing w) \<and>
   get_trajectory_copy (trajectory_manager (disable_drawing w)) = []"
proof -
  have upd: "update_position (clear_trail m) p now =
      ((clear_trail m)\<lparr>last_position := None, trajectory_break_pending := False,
         current_position := Some p,
         trajectory_points := deque_append (trajectory_points (clear_trail m))
           (Sample (fst p) (snd p) now True)\<rparr>, None)"
    by (rule update_position_no_previous) (simp add: clear_trail_fields)
  show ?thesis
    by (simp add: upd clear_trail_fields get_trajectory_copy_def deque_clear_def
        deque_append_def disable_drawing_def)
qed

theorem clear_resets_trail_witness:
  "get_trajectory_copy moving_manager = [Sample (-3) 0 1 True] \<and>
   get_trajectory_copy (clear_trail moving_manager) = [] \<and>
   get_trajectory_copy (fst (update_position (clear_trail moving_manager) (7, 8) 2)) =
     [Sample 7 8 2 True]"
proof -
  note st = moving_manager_state
  from clear_resets_trail [of moving_manager "(7, 8)" 2 "sample_widget moving_manager"]
  show ?thesis
    by (simp add: get_trajectory_copy_def st deque_clear_def deque_append_def)
qed

subsection \<open>Claim C9\<close>

lemma trail_strokes_short: "length pts < 2 \<Longrightarrow> trail_strokes iw ih pts = []"
  by (simp add: trail_strokes_def)

text \<open>
  Claim C9. On a snapshot with fewer than two entries \<^verbatim>\<open>draw_smooth_trail\<close> returns at
  once: whatever the drawing primitive, it is not called, the image is unchanged and
  nothing is raised. A display tick with no background image returns the widget as it
  is, without an exception. A tick on a snapshot of fewer than two entries raises
  nothing and leaves the copy of the background, with no line added, as current frame.
\<close>

theorem render_nothing_to_draw:
  "(length pts < 2 \<longrightarrow> draw_smooth_trail line img pts = (img, None)) \<and>
   (base_frame w = None \<longrightarrow> update_display line w = (w, None)) \<and>
   (length (get_trajectory_copy (trajectory_manager w)) < 2 \<longrightarrow>
      snd (update_display line w) = None \<and>
      current_frame (fst (update_display line w)) =
        (if base_frame w = None then current_frame w else base_frame w))"
proof -
  have 1: "length pts < 2 \<longrightarrow> draw_smooth_trail line img pts = (img, None)"
    by (simp add: draw_smooth_trail_def trail_strokes_short)
  have 2: "base_frame w = None \<longrightarrow> update_display line w = (w, None)"
    by (simp add: update_display_def)
  have 3: "length (get_trajectory_copy (trajectory_manager w)) < 2 \<longrightarrow>
      snd (update_display line w) = None \<and>
      current_frame (fst (update_display line w)) =
        (if base_frame w = None then current_frame w else base_frame w)"
  proof
    assume short: "length (get_trajectory_copy (trajectory_manager w)) < 2"
    show "snd (update_display line w) = None \<and>
      current_frame (fst (update_display line w)) =
        (if base_frame w = None then current_frame w else base_frame w)"
    proof (cases "base_frame w")
      case None
      then show ?thesis by (simp add: update_display_def)
    next
      case (Some bf)
      have "draw_smooth_trail line bf (get_trajectory_copy (trajectory_manager w)) = (bf, None)"
        using short by (simp add: draw_smooth_trail_def trail_strokes_short)
      then show ?thesis
        by (simp add: update_display_def Some Let_def update_label_from_frame_def)
    qed
  qed
  from 1 2 3 show ?thesis by blast
qed

theorem render_nothing_to_draw_witness:
  "draw_smooth_trail refusing_line \<lparr>shape1 = 100, shape0 = 100, strokes = []\<rparr>
      [Sample 5 5 1 True] = (\<lparr>shape1 = 100, shape0 = 100, strokes = []\<rparr>, None) \<and>
   update_display refusing_line ((sample_widget moving_manager)\<lparr>base_frame := None\<rparr>) =
      ((sample_widget moving_manager)\<lparr>base_frame := None\<rparr>, None) \<and>
   snd (update_display refusing_line (sample_widget moving_manager)) = None"
proof -
  have tp: "get_trajectory_copy moving_manager = [Sample (-3) 0 1 True]"
    by (simp add: get_trajectory_copy_def moving_manager_state)
  note a = render_nothing_to_draw [of "[Sample 5 5 1 True]" refusing_line
      "\<lparr>shape1 = 100, shape0 = 100, strokes = []\<rparr>"
      "(sample_widget moving_manager)\<lparr>base_frame := None\<rparr>"]
  note b = render_nothing_to_draw [of "[Sample 5 5 1 True]" refusing_line
      "\<lparr>shape1 = 100, shape0 = 100, strokes = []\<rparr>" "sample_widget moving_manager"]
  have c: "trajectory_manager (sample_widget moving_manager) = moving_manager"
    by (simp add: sample_widget_def)
  from a have 1: "draw_smooth_trail refusing_line \<lparr>shape1 = 100, shape0 = 100, strokes = []\<rparr>
      [Sample 5 5 1 True] = (\<lparr>shape1 = 100, shape0 = 100, strokes = []\<rparr>, None)"
    by simp
  from a have 2: "update_display refusing_line
      ((sample_widget moving_manager)\<lparr>base_frame := None\<rparr>) =
      ((sample_widget moving_manager)\<lparr>base_frame := None\<rparr>, None)"
    by simp
  from b have 3: "snd (update_display refusing_line (sample_widget moving_manager)) = None"
    by (simp add: c tp)
  from 1 2 3 show ?thesis by blast
qed

subsection \<open>Claim C10\<close>

lemma interpolation_samples_last:
  assumes "snd (interpolation_samples s e now n) = None"
  shows "\<exists>xs. fst (interpolation_samples s e now n) = xs @ [Sample (fst e) (snd e) now False]"
proof -
  obtain xs r where l: "loop_samples s e now n [1..n] = (xs, r)"
    by (cases "loop_samples s e now n [1..n]")
  from assms show ?thesis
    by (cases r) (auto simp: interpolation_samples_def l split: if_splits)
qed

lemma update_position_raised:
  "snd (update_position m p now) =
     (if \<not> trajectory_break_pending m \<and> current_position m \<noteq> None \<and> interpolate_motion m
      then snd (interpolation_samples (the (current_position m)) p now 3) else None)"
proof (cases "\<not> trajectory_break_pending m \<and> current_position m \<noteq> None \<and> interpolate_motion m")
  case True
  then obtain lp where "current_position m = Some lp" by auto
  with True show ?thesis using update_position_interpolating [of m lp p now] by simp
next
  case False
  then consider "trajectory_break_pending m \<or> current_position m = None"
    | "\<not> interpolate_motion m" by blast
  then show ?thesis
  proof cases
    case 1
    have "snd (update_position m p now) = None"
      by (simp add: update_position_no_previous [OF 1])
    with 1 show ?thesis by auto
  next
    case 2
    with False show ?thesis by (simp add: update_position_not_interpolating)
  qed
qed

lemma appended_samples_last:
  assumes "snd (update_position m p now) = None"
  shows "\<exists>xs. appended_samples m p now =
     xs @ [Sample (fst p) (snd p) now (trajectory_break_pending m \<or> current_position m = None)]"
proof (cases "trajectory_break_pending m \<or> current_position m = None")
  case True
  then show ?thesis by (auto simp: appended_samples_def)
next
  case False
  then obtain lp where lp: "current_position m = Some lp" and nb: "\<not> trajectory_break_pending m"
    by auto
  show ?thesis
  proof (cases "interpolate_motion m")
    case True
    with assms lp nb have "snd (interpolation_samples lp p now 3) = None"
      by (simp add: update_position_raised)
    from interpolation_samples_last [OF this] True lp nb show ?thesis
      by (simp add: appended_samples_def default_num_interpolated_def)
  next
    case False
    with lp nb show ?thesis by (simp add: appended_samples_def)
  qed
qed

lemma update_trajectory_point_converted:
  assumes "int_of_pyval (dict_get d ''x'') = Inr xi" "int_of_pyval (dict_get d ''y'') = Inr yi"
  shows "update_trajectory_point w (Some d) now =
     (w\<lparr>trajectory_manager := fst (update_position (trajectory_manager w) (xi, yi) now)\<rparr>,
      snd (update_position (trajectory_manager w) (xi, yi) now))"
  using assms by (simp add: update_trajectory_point_def Let_def split: prod.splits)

text \<open>
  Claim C10. \<^verbatim>\<open>update_trajectory_point(None)\<close> returns the widget unchanged. For a
  dictionary, a coordinate that is missing is read as the integer \<open>0\<close>, one that is
  present is read as it is; \<^verbatim>\<open>int\<close> converts an integer to itself, a boolean to 0 or 1
  and a finite float to its truncation, less than one away from it; when a conversion
  raises, the exception leaves the method and the widget is unchanged. When \<^verbatim>\<open>int\<close>
  converts both coordinates to \<open>xi\<close> and \<open>yi\<close>, the method is \<^verbatim>\<open>update_position\<close> on the
  pair of integers: only the manager changes, its current position is \<open>(xi, yi)\<close>, its
  buffer is extended by the samples of that update, and the exception of the update, if
  any, leaves the method. When the update raises nothing, the sample appended last is
  \<open>(xi, yi)\<close>, tagged as the start of a segment exactly when no previous position exists;
  it raises nothing when no previous position exists, when interpolation is off, and
  for pixel coordinates, and it raises \<^verbatim>\<open>TypeError\<close> when it interpolates over a squared
  distance of \<open>2^64\<close> or more.
\<close>

theorem update_trajectory_point_boundary:
  "update_trajectory_point w None now = (w, None) \<and>
   (d ''x'' = None \<longrightarrow> dict_get d ''x'' = PyInt 0) \<and>
   (d ''y'' = None \<longrightarrow> dict_get d ''y'' = PyInt 0) \<and>
   (\<forall>v. d ''x'' = Some v \<longrightarrow> dict_get d ''x'' = v) \<and>
   (\<forall>v. d ''y'' = Some v \<longrightarrow> dict_get d ''y'' = v) \<and>
   (\<forall>xi yi. int_of_pyval (dict_get d ''x'') = Inr xi \<and> int_of_pyval (dict_get d ''y'') = Inr yi \<longrightarrow>
      (let tm = trajectory_manager w;
           r = update_position tm (xi, yi) now;
           w' = fst (update_trajectory_point w (Some d) now);
           tm' = trajectory_manager w'
       in update_trajectory_point w (Some d) now = (w\<lparr>trajectory_manager := fst r\<rparr>, snd r) \<and>
          current_position tm' = Some (xi, yi) \<and>
          last_position tm' = (if trajectory_break_pending tm then None else current_position tm) \<and>
          \<not> trajectory_break_pending tm' \<and>
          trajectory_points tm' =
            deque_extend (trajectory_points tm) (appended_samples tm (xi, yi) now) \<and>
          (snd r = None \<longrightarrow>
             (\<exists>xs. appended_samples tm (xi, yi) now =
                xs @ [Sample xi yi now
                        (trajectory_break_pending tm \<or> current_position tm = None)])) \<and>
          (trajectory_break_pending tm \<or> current_position tm = None \<longrightarrow>
             snd r = None \<and> appended_samples tm (xi, yi) now = [Sample xi yi now True]) \<and>
          (\<not> interpolate_motion tm \<longrightarrow> snd r = None) \<and>
          (\<forall>lp. current_position tm = Some lp \<and> pixel_point lp \<and> pixel_point (xi, yi) \<longrightarrow>
             snd r = None) \<and>
          (\<forall>lp. current_position tm = Some lp \<and> \<not> trajectory_break_pending tm \<and>
               interpolate_motion tm \<and> 2 ^ 64 \<le> squared_distance lp (xi, yi) \<longrightarrow>
             snd r = Some TypeError))) \<and>
   (\<forall>e. int_of_pyval (dict_get d ''x'') = Inl e \<longrightarrow>
      update_trajectory_point w (Some d) now = (w, Some e)) \<and>
   (\<forall>xi e. int_of_pyval (dict_get d ''x'') = Inr xi \<and> int_of_pyval (dict_get d ''y'') = Inl e \<longrightarrow>
      update_trajectory_point w (Some d) now = (w, Some e)) \<and>
   int_of_pyval (PyInt n) = Inr n \<and>
   int_of_pyval (PyBool b) = Inr (if b then 1 else 0) \<and>
   int_of_pyval (PyFloat (Finite q)) = Inr (py_int q) \<and>
   \<bar>of_int (py_int q) - q\<bar> < 1"
proof -
  have none: "update_trajectory_point w None now = (w, None)"
    by (simp add: update_trajectory_point_def)
  have keys: "d ''x'' = None \<longrightarrow> dict_get d ''x'' = PyInt 0"
    "d ''y'' = None \<longrightarrow> dict_get d ''y'' = PyInt 0"
    "\<forall>v. d ''x'' = Some v \<longrightarrow> dict_get d ''x'' = v"
    "\<forall>v. d ''y'' = Some v \<longrightarrow> dict_get d ''y'' = v"
    by (simp_all add: dict_get_def)
  have fails: "\<forall>e. int_of_pyval (dict_get d ''x'') = Inl e \<longrightarrow>
      update_trajectory_point w (Some d) now = (w, Some e)"
    "\<forall>xi e. int_of_pyval (dict_get d ''x'') = Inr xi \<and> int_of_pyval (dict_get d ''y'') = Inl e \<longrightarrow>
      update_trajectory_point w (Some d) now = (w, Some e)"
    by (simp_all add: update_trajectory_point_def Let_def)
  have conv: "int_of_pyval (PyInt n) = Inr n"
    "int_of_pyval (PyBool b) = Inr (if b then 1 else 0)"
    "int_of_pyval (PyFloat (Finite q)) = Inr (py_int q)"
    "\<bar>of_int (py_int q) - q\<bar> < 1"
    by (simp_all add: py_int_close)
  have ok: "\<forall>xi yi. int_of_pyval (dict_get d ''x'') = Inr xi \<and>
      int_of_pyval (dict_get d ''y'') = Inr yi \<longrightarrow>
      (let tm = trajectory_manager w;
           r = update_position tm (xi, yi) now;
           w' = fst (update_trajectory_point w (Some d) now);
           tm' = trajectory_manager w'
       in update_trajectory_point w (Some d) now = (w\<lparr>trajectory_manager := fst r\<rparr>, snd r) \<and>
          current_position tm' = Some (xi, yi) \<and>
          last_position tm' = (if trajectory_break_pending tm then None else current_position tm) \<and>
          \<not> trajectory_break_pending tm' \<and>
          trajectory_points tm' =
            deque_extend (trajectory_points tm) (appended_samples tm (xi, yi) now) \<and>
          (snd r = None \<longrightarrow>
             (\<exists>xs. appended_samples tm (xi, yi) now =
                xs @ [Sample xi yi now
                        (trajectory_break_pending tm \<or> current_position tm = None)])) \<and>
          (trajectory_break_pending tm \<or> current_position tm = None \<longrightarrow>
             snd r = None \<and> appended_samples tm (xi, yi) now = [Sample xi yi now True]) \<and>
          (\<not> interpolate_motion tm \<longrightarrow> snd r = None) \<and>
          (\<forall>lp. current_position tm = Some lp \<and> pixel_point lp \<and> pixel_point (xi, yi) \<longrightarrow>
             snd r = None) \<and>
          (\<forall>lp. current_position tm = Some lp \<and> \<not> trajectory_break_pending tm \<and>
               interpolate_motion tm \<and> 2 ^ 64 \<le> squared_distance lp (xi, yi) \<longrightarrow>
             snd r = Some TypeError))"
  proof (intro allI impI)
    fix xi yi
    assume "int_of_pyval (dict_get d ''x'') = Inr xi \<and> int_of_pyval (dict_get d ''y'') = Inr yi"
    then have c: "int_of_pyval (dict_get d ''x'') = Inr xi"
      "int_of_pyval (dict_get d ''y'') = Inr yi" by simp_all
    let ?tm = "trajectory_manager w"
    let ?r = "update_position ?tm (xi, yi) now"
    note u = update_trajectory_point_converted [OF c, of w now]
    have 1: "snd ?r = None \<longrightarrow>
        (\<exists>xs. appended_samples ?tm (xi, yi) now =
           xs @ [Sample xi yi now (trajectory_break_pending ?tm \<or> current_position ?tm = None)])"
      using appended_samples_last [of ?tm "(xi, yi)" now] by simp
    have 2: "trajectory_break_pending ?tm \<or> current_position ?tm = None \<longrightarrow>
        snd ?r = None \<and> appended_samples ?tm (xi, yi) now = [Sample xi yi now True]"
      by (auto simp: update_position_no_previous appended_samples_def)
    have 3: "\<not> interpolate_motion ?tm \<longrightarrow> snd ?r = None"
      by (simp add: update_position_not_interpolating)
    have 4: "\<forall>lp. current_position ?tm = Some lp \<and> pixel_point lp \<and> pixel_point (xi, yi) \<longrightarrow>
        snd ?r = None"
      by (auto simp: update_position_raised interpolation_samples_pixel)
    have 5: "\<forall>lp. current_position ?tm = Some lp \<and> \<not> trajectory_break_pending ?tm \<and>
          interpolate_motion ?tm \<and> 2 ^ 64 \<le> squared_distance lp (xi, yi) \<longrightarrow>
        snd ?r = Some TypeError"
      by (auto simp: update_position_raised interpolation_samples_def)
    show "let tm = trajectory_manager w;
           r = update_position tm (xi, yi) now;
           w' = fst (update_trajectory_point w (Some d) now);
           tm' = trajectory_manager w'
       in update_trajectory_point w (Some d) now = (w\<lparr>trajectory_manager := fst r\<rparr>, snd r) \<and>
          current_position tm' = Some (xi, yi) \<and>
          last_position tm' = (if trajectory_break_pending tm then None else current_position tm) \<and>
          \<not> trajectory_break_pending tm' \<and>
          trajectory_points tm' =
            deque_extend (trajectory_points tm) (appended_samples tm (xi, yi) now) \<and>
          (snd r = None \<longrightarrow>
             (\<exists>xs. appended_samples tm (xi, yi) now =
                xs @ [Sample xi yi now
                        (trajectory_break_pending tm \<or> current_position tm = None)])) \<and>
          (trajectory_break_pending tm \<or> current_position tm = None \<longrightarrow>
             snd r = None \<and> appended_samples tm (xi, yi) now = [Sample xi yi now True]) \<and>
          (\<not> interpolate_motion tm \<longrightarrow> snd r = None) \<and>
          (\<forall>lp. current_position tm = Some lp \<and> pixel_point lp \<and> pixel_point (xi, yi) \<longrightarrow>
             snd r = None) \<and>
          (\<forall>lp. current_position tm = Some lp \<and> \<not> trajectory_break_pending tm \<and>
               interpolate_motion tm \<and> 2 ^ 64 \<le> squared_distance lp (xi, yi) \<longrightarrow>
             snd r = Some TypeError)"
      unfolding Let_def u fst_conv
      using 1 2 3 4 5
      by (simp add: update_position_fields trajectory_points_update_position)
  qed
  from none keys fails conv ok show ?thesis by blast
qed

theorem update_trajectory_point_boundary_witness:
  "update_trajectory_point (sample_widget (fresh_manager 100))
      (Some [''x'' \<mapsto> PyFloat (Finite (27 / 10))]) 1 =
     ((sample_widget (fresh_manager 100))
        \<lparr>trajectory_manager := fst (update_position (fresh_manager 100) (2, 0) 1)\<rparr>, None) \<and>
   get_trajectory_copy (trajectory_manager (fst (update_trajectory_point
      (sample_widget (fresh_manager 100)) (Some [''x'' \<mapsto> PyFloat (Finite (27 / 10))]) 1))) =
     [Sample 2 0 1 True]"
proof -
  let ?d = "[''x'' \<mapsto> PyFloat (Finite (27 / 10))]"
  let ?w = "sample_widget (fresh_manager 100)"
  have x: "int_of_pyval (dict_get ?d ''x'') = Inr 2"
  proof -
    have "py_int (27 / 10) = 2" by code_simp
    then show ?thesis by (simp add: dict_get_def)
  qed
  have y: "int_of_pyval (dict_get ?d ''y'') = Inr 0"
    by (simp add: dict_get_def)
  have tm: "trajectory_manager ?w = fresh_manager 100"
    by (simp add: sample_widget_def)
  have st: "\<not> trajectory_break_pending (fresh_manager 100)"
    "current_position (fresh_manager 100) = None"
    "trajectory_points (fresh_manager 100) = \<lparr>maxlen = 100, items = []\<rparr>"
    by (simp_all add: fresh_manager_def deque_new_def)
  note t = update_trajectory_point_boundary [of ?w 1 ?d 0 True 0, unfolded Let_def tm]
  from t x y have 1: "update_trajectory_point ?w (Some ?d) 1 =
      (?w\<lparr>trajectory_manager := fst (update_position (fresh_manager 100) (2, 0) 1)\<rparr>,
       snd (update_position (fresh_manager 100) (2, 0) 1))"
    by blast
  from t x y st have 2: "snd (update_position (fresh_manager 100) (2, 0) 1) = None"
    "appended_samples (fresh_manager 100) (2, 0) 1 = [Sample 2 0 1 True]"
    by blast+
  from t x y have 3: "trajectory_points (trajectory_manager
        (fst (update_trajectory_point ?w (Some ?d) 1))) =
      deque_extend (trajectory_points (fresh_manager 100))
        (appended_samples (fresh_manager 100) (2, 0) 1)"
    by blast
  have 4: "get_trajectory_copy (trajectory_manager
        (fst (update_trajectory_point ?w (Some ?d) 1))) = [Sample 2 0 1 True]"
    by (simp add: get_trajectory_copy_def 3 2 st deque_extend_def deque_append_def)
  have 5: "update_trajectory_point ?w (Some ?d) 1 =
      (?w\<lparr>trajectory_manager := fst (update_position (fresh_manager 100) (2, 0) 1)\<rparr>, None)"
    using 1 2 by simp
  from 4 5 show ?thesis by blast
qed

subsection \<open>Claim C6\<close>








subsection \<open>Claim C7\<close>








subsection \<open>Claim C4\<close>
























subsection \<open>Claim C5\<close>



















end
